theory Spec2Isabelle
  imports Complex_Main
begin

section \<open>The option registry of termineter (lib/termineter/options.py)\<close>

text \<open>
  The module is Python 3 (it imports \<^verbatim>\<open>collections.abc\<close>). A Python \<^verbatim>\<open>str\<close> is
  modelled as a \<^typ>\<open>string\<close> in which every \<^typ>\<open>char\<close> stands for the code point of the
  same number, so the model covers the texts made of code points 0 to 255. Exceptions are
  values of the type \<open>error\<close>; a method that mutates the registry returns its result
  together with the registry as the call leaves it, also when it raises.
\<close>

subsection \<open>Python values and exceptions\<close>

datatype pyval = VNone | VStr string | VInt int | VFloat rat | VBool bool

text \<open>
  \<open>VFloat q\<close> stands for the float that \<^verbatim>\<open>float()\<close> yields on a literal of exact
  decimal value \<open>q\<close>; the rounding to binary64 is outside the model.

  \<open>KeyError\<close> is raised by the dictionary lookup of an undeclared name, \<open>TypeError\<close> is
  the \<^verbatim>\<open>TypeError('invalid value type')\<close> of \<^verbatim>\<open>set_option\<close>, \<open>ValueError\<close> is what the
  builtins \<^verbatim>\<open>int()\<close> and \<^verbatim>\<open>float()\<close> raise, and \<open>UnknownValueType\<close> is the
  \<^verbatim>\<open>Exception('unknown value type')\<close> of \<^verbatim>\<open>set_option\<close>.
\<close>

datatype error = KeyError string | TypeError | ValueError | UnknownValueType

subsection \<open>The builtins of \<^verbatim>\<open>str\<close> that the module calls\<close>

text \<open>\<^verbatim>\<open>str.lower\<close>: A-Z and the upper-case letters U+00C0 to U+00DE (U+00D7 is the
  multiplication sign) move up by 32.\<close>

definition lower_char :: "char \<Rightarrow> char" where
  "lower_char c =
     (let n = (of_char c :: nat)
      in if (65 \<le> n \<and> n \<le> 90) \<or> (192 \<le> n \<and> n \<le> 222 \<and> n \<noteq> 215)
         then char_of (n + 32) else c)"

definition lower :: "string \<Rightarrow> string" where
  "lower s = map lower_char s"

text \<open>\<^verbatim>\<open>str.isdigit\<close> is true of a non-empty text of characters with a digit value:
  below U+0100 these are 0-9 and the superscripts U+00B2, U+00B3 and U+00B9.
  \<^verbatim>\<open>int()\<close> and \<^verbatim>\<open>float()\<close> read decimal digits only, which below U+0100 are 0-9.\<close>

definition isdecimal_char :: "char \<Rightarrow> bool" where
  "isdecimal_char c = (48 \<le> (of_char c :: nat) \<and> (of_char c :: nat) \<le> 57)"

definition isdigit_char :: "char \<Rightarrow> bool" where
  "isdigit_char c =
     (isdecimal_char c \<or> (of_char c :: nat) = 178 \<or> (of_char c :: nat) = 179
        \<or> (of_char c :: nat) = 185)"

definition isdigit :: "string \<Rightarrow> bool" where
  "isdigit s = (s \<noteq> [] \<and> list_all isdigit_char s)"

definition startswith :: "string \<Rightarrow> string \<Rightarrow> bool" where
  "startswith s p = (take (length p) s = p)"

text \<open>\<^verbatim>\<open>s.count(c)\<close> for a one-character \<open>c\<close>.\<close>

definition count_char :: "string \<Rightarrow> char \<Rightarrow> nat" where
  "count_char s c = length (filter (\<lambda>x. x = c) s)"

text \<open>\<^verbatim>\<open>s.replace(old, new)\<close>: the occurrences of \<open>old\<close> are found from the left and do
  not overlap; an empty \<open>old\<close> matches before every character and at the end.\<close>

function replace_from :: "string \<Rightarrow> string \<Rightarrow> string \<Rightarrow> string" where
  "replace_from old new s =
     (if old = [] \<or> s = [] then s
      else if startswith s old then new @ replace_from old new (drop (length old) s)
      else hd s # replace_from old new (tl s))"
  by pat_completeness auto
termination
  by (relation "measure (\<lambda>(old, new, s). length s)") auto

definition replace :: "string \<Rightarrow> string \<Rightarrow> string \<Rightarrow> string" where
  "replace s old new =
     (if old = [] then new @ concat (map (\<lambda>c. c # new) s) else replace_from old new s)"

text \<open>The value of a text of decimal digits, in base 10.\<close>

definition digit_val :: "char \<Rightarrow> nat" where
  "digit_val c = (of_char c :: nat) - 48"

definition decimal_val :: "string \<Rightarrow> nat" where
  "decimal_val s = foldl (\<lambda>acc c. 10 * acc + digit_val c) 0 s"

text \<open>\<^verbatim>\<open>int(s)\<close> on a text that passed \<^verbatim>\<open>isdigit\<close>: a superscript digit is no decimal
  digit and raises \<^verbatim>\<open>ValueError\<close>. (Signs, blanks and underscores, which \<^verbatim>\<open>int()\<close>
  accepts too, never pass \<^verbatim>\<open>isdigit\<close>; the interpreter's configurable limit on the
  number of digits is not modelled.)\<close>

definition py_int :: "string \<Rightarrow> error + int" where
  "py_int s =
     (if s \<noteq> [] \<and> list_all isdecimal_char s then Inr (int (decimal_val s))
      else Inl ValueError)"

text \<open>\<^verbatim>\<open>int(s, 16)\<close> on a text of hexadecimal digits.\<close>

definition hex_val :: "char \<Rightarrow> nat" where
  "hex_val c =
     (let n = (of_char c :: nat)
      in if 48 \<le> n \<and> n \<le> 57 then n - 48
         else if 97 \<le> n \<and> n \<le> 102 then n - 87
         else n - 55)"

definition ishex_char :: "char \<Rightarrow> bool" where
  "ishex_char c = (c \<in> set ''0123456789abcdefABCDEF'')"

definition py_int16 :: "string \<Rightarrow> error + int" where
  "py_int16 s =
     (if s \<noteq> [] \<and> list_all ishex_char s
      then Inr (int (foldl (\<lambda>acc c. 16 * acc + hex_val c) 0 s))
      else Inl ValueError)"

text \<open>\<^verbatim>\<open>float(s)\<close> on a text with at most one \<^verbatim>\<open>.\<close> whose other characters passed
  \<^verbatim>\<open>isdigit\<close>: the digits before and after the point, read in base 10.\<close>

definition py_float :: "string \<Rightarrow> error + rat" where
  "py_float s =
     (let ds = filter (\<lambda>c. c \<noteq> CHR ''.'') s;
          frac = (if CHR ''.'' \<in> set s
                  then length (takeWhile (\<lambda>c. c \<noteq> CHR ''.'') (rev s)) else 0)
      in if ds \<noteq> [] \<and> list_all isdecimal_char ds \<and> count_char s CHR ''.'' \<le> 1
         then Inr (of_nat (decimal_val ds) / 10 ^ frac)
         else Inl ValueError)"

text \<open>\<^verbatim>\<open>str(n)\<close> of an integer.\<close>

fun digits :: "nat \<Rightarrow> string" where
  "digits n =
     (if n < 10 then [char_of (48 + n)]
      else digits (n div 10) @ [char_of (48 + n mod 10)])"

definition py_str :: "int \<Rightarrow> string" where
  "py_str i = (if i < 0 then CHR ''-'' # digits (nat (- i)) else digits (nat i))"

subsection \<open>\<^verbatim>\<open>string_is_hex\<close>\<close>

text \<open>In Python 3 \<^verbatim>\<open>filter(f, string)\<close> builds an iterator object without running it.
  An iterator object defines neither \<^verbatim>\<open>__bool__\<close> nor \<^verbatim>\<open>__len__\<close>, so it is true
  whatever it would yield.\<close>

datatype 'a filter_object = FilterObject "'a \<Rightarrow> bool" "'a list"

definition py_filter :: "('a \<Rightarrow> bool) \<Rightarrow> 'a list \<Rightarrow> 'a filter_object" where
  "py_filter f xs = FilterObject f xs"

fun truth_filter_object :: "'a filter_object \<Rightarrow> bool" where
  "truth_filter_object (FilterObject f xs) = True"

definition string_is_hex :: "string \<Rightarrow> bool" where
  "string_is_hex string =
     (if length string = 0 then False
      else \<not> truth_filter_object
             (py_filter (\<lambda>c. c \<notin> set ''0123456789abcdefABCDEF'') string))"

subsection \<open>\<^verbatim>\<open>Option\<close> and \<^verbatim>\<open>Options\<close>\<close>

text \<open>A callback is a function of the new and the old value; its result is read for its
  truth value only. The field holds \<open>None\<close> when no callback is attached.\<close>

type_synonym callback = "pyval \<Rightarrow> pyval \<Rightarrow> bool"

record Option =
  opt_name :: string
  opt_type :: string
  opt_help :: string
  opt_required :: bool
  opt_default :: pyval
  opt_value :: pyval
  opt_callback :: "callback option"

definition Option_init ::
  "string \<Rightarrow> string \<Rightarrow> string \<Rightarrow> bool \<Rightarrow> pyval \<Rightarrow> callback option \<Rightarrow> Option" where
  "Option_init name type help required dflt callback =
     \<lparr>opt_name = name, opt_type = type, opt_help = help, opt_required = required,
      opt_default = dflt, opt_value = dflt, opt_callback = callback\<rparr>"

record Directories =
  data_path :: string
  user_data :: string

text \<open>The dictionary \<^verbatim>\<open>_options\<close> keeps its keys in the order of their first
  insertion, so it is a list of pairs: assigning to a key that is present replaces the
  value where it stands, assigning to a new key appends.\<close>

fun dict_set :: "'k \<Rightarrow> 'v \<Rightarrow> ('k \<times> 'v) list \<Rightarrow> ('k \<times> 'v) list" where
  "dict_set k v [] = [(k, v)]"
| "dict_set k v (p # ps) = (if fst p = k then (k, v) # ps else p # dict_set k v ps)"

record Options =
  directories :: Directories
  options :: "(string \<times> Option) list"

definition Options_init :: "Directories \<Rightarrow> Options" where
  "Options_init dirs = \<lparr>directories = dirs, options = []\<rparr>"

definition get_option :: "Options \<Rightarrow> string \<Rightarrow> error + Option" where
  "get_option self name =
     (case map_of (options self) name of
        None \<Rightarrow> Inl (KeyError name)
      | Some option \<Rightarrow> Inr option)"

definition getitem :: "Options \<Rightarrow> string \<Rightarrow> error + pyval" where
  "getitem self item =
     (case map_of (options self) item of
        None \<Rightarrow> Inl (KeyError item)
      | Some option \<Rightarrow> Inr (opt_value option))"

definition iter_options :: "Options \<Rightarrow> string list" where
  "iter_options self = map fst (options self)"

definition len_options :: "Options \<Rightarrow> nat" where
  "len_options self = length (options self)"

definition add_string :: "Options \<Rightarrow> string \<Rightarrow> string \<Rightarrow> bool \<Rightarrow> pyval \<Rightarrow> Options" where
  "add_string self name help required dflt =
     self\<lparr>options := dict_set name (Option_init name ''str'' help required dflt None)
                        (options self)\<rparr>"

definition add_integer :: "Options \<Rightarrow> string \<Rightarrow> string \<Rightarrow> bool \<Rightarrow> pyval \<Rightarrow> Options" where
  "add_integer self name help required dflt =
     self\<lparr>options := dict_set name (Option_init name ''int'' help required dflt None)
                        (options self)\<rparr>"

definition add_float :: "Options \<Rightarrow> string \<Rightarrow> string \<Rightarrow> bool \<Rightarrow> pyval \<Rightarrow> Options" where
  "add_float self name help required dflt =
     self\<lparr>options := dict_set name (Option_init name ''flt'' help required dflt None)
                        (options self)\<rparr>"

definition add_boolean :: "Options \<Rightarrow> string \<Rightarrow> string \<Rightarrow> bool \<Rightarrow> pyval \<Rightarrow> Options" where
  "add_boolean self name help required dflt =
     self\<lparr>options := dict_set name (Option_init name ''bool'' help required dflt None)
                        (options self)\<rparr>"

text \<open>\<open>sep\<close> is \<^verbatim>\<open>os.path.sep\<close>, a constant of the platform.\<close>

definition rfile_default :: "string \<Rightarrow> Directories \<Rightarrow> pyval \<Rightarrow> pyval" where
  "rfile_default sep dirs dflt =
     (case dflt of
        VStr d \<Rightarrow>
          VStr (replace (replace d ''$DATA_PATH '' (data_path dirs @ sep))
                        ''$USER_DATA '' (user_data dirs @ sep))
      | _ \<Rightarrow> dflt)"

definition add_rfile ::
  "string \<Rightarrow> Options \<Rightarrow> string \<Rightarrow> string \<Rightarrow> bool \<Rightarrow> pyval \<Rightarrow> Options" where
  "add_rfile sep self name help required dflt =
     self\<lparr>options := dict_set name
        (Option_init name ''rfile'' help required
           (rfile_default sep (directories self) dflt) None)
        (options self)\<rparr>"

text \<open>An \<^verbatim>\<open>Option\<close> object is reached through its key only (every declaration builds a
  fresh object), so an assignment to one of its attributes is the replacement of the
  entry under that key.\<close>

definition set_callback ::
  "Options \<Rightarrow> string \<Rightarrow> callback option \<Rightarrow> (error + unit) \<times> Options" where
  "set_callback self name callback =
     (case get_option self name of
        Inl e \<Rightarrow> (Inl e, self)
      | Inr option \<Rightarrow>
          (Inr (), self\<lparr>options := dict_set name (option\<lparr>opt_callback := callback\<rparr>)
                                     (options self)\<rparr>))"

subsection \<open>\<^verbatim>\<open>set_option\<close>\<close>

text \<open>The branches on \<^verbatim>\<open>option.type\<close> (lines 150 to 174). A branch that does not raise
  yields the pair of the value it assigns to \<^verbatim>\<open>option.value\<close> and of the content of the
  local variable \<^verbatim>\<open>value\<close> when the branch ends: the Integer branch rebinds
  \<^verbatim>\<open>value\<close> to the lower-cased text, and to the integer on the hexadecimal path only.
  Every \<^verbatim>\<open>raise\<close>, also inside \<^verbatim>\<open>int()\<close> and \<^verbatim>\<open>float()\<close>, comes before the assignment
  to \<^verbatim>\<open>option.value\<close>.\<close>

definition coerce :: "string \<Rightarrow> string \<Rightarrow> error + (pyval \<times> pyval)" where
  "coerce type value =
     (if type \<in> set [''str'', ''rfile''] then Inr (VStr value, VStr value)
      else if type = ''int'' then
        (let value = lower value
         in if \<not> isdigit value then
              (if startswith value ''0x'' \<and> string_is_hex (drop 2 value)
               then (case py_int16 (drop 2 value) of
                       Inl e \<Rightarrow> Inl e
                     | Inr i \<Rightarrow> Inr (VInt i, VInt i))
               else Inl TypeError)
            else (case py_int value of
                    Inl e \<Rightarrow> Inl e
                  | Inr i \<Rightarrow> Inr (VInt i, VStr value)))
      else if type = ''flt'' then
        (if count_char value CHR ''.'' > 1 then Inl TypeError
         else if \<not> isdigit (replace value ''.'' '''') then Inl TypeError
         else (case py_float value of
                 Inl e \<Rightarrow> Inl e
               | Inr x \<Rightarrow> Inr (VFloat x, VStr value)))
      else if type = ''bool'' then
        (if lower value \<in> set [''true'', ''1'', ''on''] then Inr (VBool True, VStr value)
         else if lower value \<in> set [''false'', ''0'', ''off'']
         then Inr (VBool False, VStr value)
         else Inl TypeError)
      else Inl UnknownValueType)"

definition assign_value :: "Options \<Rightarrow> string \<Rightarrow> Option \<Rightarrow> pyval \<Rightarrow> Options" where
  "assign_value self name option v =
     self\<lparr>options := dict_set name (option\<lparr>opt_value := v\<rparr>) (options self)\<rparr>"

definition set_option :: "Options \<Rightarrow> string \<Rightarrow> string \<Rightarrow> (error + pyval) \<times> Options" where
  "set_option self name value =
     (case get_option self name of
        Inl e \<Rightarrow> (Inl e, self)
      | Inr option \<Rightarrow>
          (let old_value = opt_value option
           in case coerce (opt_type option) value of
                Inl e \<Rightarrow> (Inl e, self)
              | Inr (new_value, value) \<Rightarrow>
                  (let self1 = assign_value self name option new_value
                   in case opt_callback option of
                        None \<Rightarrow> (Inr old_value, self1)
                      | Some callback \<Rightarrow>
                          if \<not> callback value old_value
                          then (Inr old_value, assign_value self1 name option old_value)
                          else (Inr old_value, self1))))"

definition get_missing_options :: "Options \<Rightarrow> string list" where
  "get_missing_options self =
     map opt_name
       (filter (\<lambda>option. opt_required option \<and> opt_value option = VNone)
          (map snd (options self)))"

subsection \<open>Properties stated about the registry\<close>

text \<open>
  The fields of an option other than its value.
\<close>

definition frame :: "Option \<Rightarrow> string \<times> string \<times> string \<times> bool \<times> pyval \<times> callback option" where
  "frame option = (opt_name option, opt_type option, opt_help option, opt_required option,
                   opt_default option, opt_callback option)"

text \<open>
  A registry is well formed when no key occurs twice in the dictionary and every option
  is stored under its own name. The empty registry is well formed and every method keeps
  a registry well formed.
\<close>

definition wellformed :: "Options \<Rightarrow> bool" where
  "wellformed self =
     (distinct (map fst (options self))
      \<and> (\<forall>(name, option) \<in> set (options self). opt_name option = name))"

text \<open>
  The callback of the option, if there is one, answers false on the argument \<open>a\<close> and
  the stored value.
\<close>

definition vetoes :: "Option \<Rightarrow> pyval \<Rightarrow> bool" where
  "vetoes option a =
     (case opt_callback option of None \<Rightarrow> False | Some cb \<Rightarrow> \<not> cb a (opt_value option))"

subsection \<open>Example registries\<close>

definition dirs0 :: Directories where
  "dirs0 = \<lparr>data_path = ''/etc/app'', user_data = ''/home/user''\<rparr>"

definition port_registry :: Options where
  "port_registry = add_integer (Options_init dirs0) ''PORT'' ''the port'' True VNone"

definition only_int_42 :: callback where
  "only_int_42 new old = (new = VInt 42)"

definition not_zero_text :: callback where
  "not_zero_text new old = (new \<noteq> VStr ''0'')"

definition count_registry :: "callback \<Rightarrow> Options" where
  "count_registry cb =
     snd (set_callback (add_integer (Options_init dirs0) ''COUNT'' ''a count'' True VNone)
            ''COUNT'' (Some cb))"

definition two_registry :: Options where
  "two_registry =
     add_float (add_string (add_integer (Options_init dirs0) ''PORT'' ''the port'' True VNone)
                  ''HOST'' ''the host'' True (VStr ''localhost''))
       ''RATE'' ''the rate'' False VNone"

definition flag_registry :: Options where
  "flag_registry = add_boolean (Options_init dirs0) ''VERBOSE'' ''more output'' False VNone"

definition rate_registry :: Options where
  "rate_registry = add_float (Options_init dirs0) ''RATE'' ''the rate'' True (VFloat 1)"

definition config_registry :: Options where
  "config_registry =
     add_rfile ''/'' (Options_init dirs0) ''CONFIG'' ''the file'' True
       (VStr ''$DATA_PATH config.ini'')"

section \<open>Auxiliary facts\<close>

declare digits.simps [simp del]

declare replace_from.simps [simp del]

lemmas model_defs = Options_init_def Option_init_def add_string_def add_integer_def
  add_float_def add_boolean_def add_rfile_def rfile_default_def set_callback_def set_option_def
  get_option_def getitem_def assign_value_def get_missing_options_def iter_options_def
  coerce_def lower_def lower_char_def isdigit_def isdigit_char_def isdecimal_char_def
  startswith_def string_is_hex_def py_filter_def py_int_def decimal_val_def digit_val_def
  count_char_def replace_def py_float_def py_str_def

subsection \<open>The dictionary\<close>

lemma map_of_dict_set: "map_of (dict_set k v xs) = (map_of xs)(k \<mapsto> v)"
  by (induction xs) (auto simp: fun_eq_iff)

lemma dict_set_same: "map_of xs k = Some v \<Longrightarrow> dict_set k v xs = xs"
  by (induction xs) (auto split: if_splits)

lemma dict_set_twice: "dict_set k v (dict_set k w xs) = dict_set k v xs"
  by (induction xs) auto

lemma keys_dict_set:
  "map fst (dict_set k v xs) = (if k \<in> set (map fst xs) then map fst xs else map fst xs @ [k])"
  by (induction xs) auto

lemma keys_dict_set_present: "map_of xs k = Some w \<Longrightarrow> map fst (dict_set k v xs) = map fst xs"
  by (induction xs) (auto split: if_splits)

subsection \<open>Texts of digits\<close>

lemma string_is_hex_False: "string_is_hex s = False"
  by (simp add: string_is_hex_def py_filter_def)

lemma isdecimal_digit_char: "(k::nat) < 10 \<Longrightarrow> isdecimal_char (char_of (48 + k))"
  by (simp add: isdecimal_char_def)

lemma digit_val_digit_char: "(k::nat) < 10 \<Longrightarrow> digit_val (char_of (48 + k)) = k"
  by (simp add: digit_val_def)

lemma digits_decimal: "list_all isdecimal_char (digits n)"
proof (induction n rule: digits.induct)
  case (1 n)
  show ?case
  proof (cases "n < 10")
    case True
    then show ?thesis by (simp add: digits.simps [of n] isdecimal_digit_char)
  next
    case False
    with 1 show ?thesis by (simp add: digits.simps [of n] isdecimal_digit_char)
  qed
qed

lemma digits_nonempty: "digits n \<noteq> []"
  by (simp add: digits.simps [of n])

lemma decimal_val_snoc: "decimal_val (s @ [c]) = 10 * decimal_val s + digit_val c"
  by (simp add: decimal_val_def)

lemma decimal_val_digits: "decimal_val (digits n) = n"
proof (induction n rule: digits.induct)
  case (1 n)
  show ?case
  proof (cases "n < 10")
    case True
    then show ?thesis by (simp add: digits.simps [of n] decimal_val_def digit_val_digit_char)
  next
    case False
    with 1 show ?thesis
      by (simp add: digits.simps [of n] decimal_val_snoc digit_val_digit_char)
  qed
qed

lemma lower_char_decimal: "isdecimal_char c \<Longrightarrow> lower_char c = c"
  by (simp add: isdecimal_char_def lower_char_def)

lemma lower_decimal: "list_all isdecimal_char s \<Longrightarrow> lower s = s"
  by (induction s) (simp_all add: lower_def lower_char_decimal)

lemma isdigit_decimal: "s \<noteq> [] \<Longrightarrow> list_all isdecimal_char s \<Longrightarrow> isdigit s"
  by (induction s) (auto simp: isdigit_def isdigit_char_def list_all_iff)

subsection \<open>The branches of the coercion\<close>

lemma coerce_int_digits: "coerce ''int'' (digits n) = Inr (VInt (int n), VStr (digits n))"
  by (simp add: coerce_def lower_decimal digits_decimal isdigit_decimal digits_nonempty
        py_int_def decimal_val_digits)

lemma coerce_int_negative: "coerce ''int'' (CHR ''-'' # s) = Inl TypeError"
  by (simp add: coerce_def lower_def lower_char_def isdigit_def isdigit_char_def
        isdecimal_char_def startswith_def)

lemma coerce_int_0x: "coerce ''int'' (''0x'' @ s) = Inl TypeError"
  by (simp add: coerce_def lower_def lower_char_def isdigit_def isdigit_char_def
        isdecimal_char_def startswith_def string_is_hex_False)

lemma coerce_not_None: "coerce t raw = Inr (v, a) \<Longrightarrow> v \<noteq> VNone"
  by (auto simp: coerce_def Let_def split: if_splits sum.splits)

lemma coerce_bool:
  "coerce ''bool'' raw =
     (if lower raw \<in> {''true'', ''1'', ''on''} then Inr (VBool True, VStr raw)
      else if lower raw \<in> {''false'', ''0'', ''off''} then Inr (VBool False, VStr raw)
      else Inl TypeError)"
  by (simp add: coerce_def)

lemma coerce_arg:
  "coerce t raw = Inr (v, a) \<Longrightarrow> t = ''int'' \<longrightarrow> isdigit (lower raw)
     \<Longrightarrow> a = VStr (if t = ''int'' then lower raw else raw)"
  by (auto simp: coerce_def Let_def split: if_splits sum.splits)

subsection \<open>The outcomes of \<^verbatim>\<open>set_option\<close>\<close>

lemma assign_value_twice:
  "assign_value (assign_value self name option v) name option w = assign_value self name option w"
  by (simp add: assign_value_def dict_set_twice)

lemma assign_value_same:
  "get_option self name = Inr option \<Longrightarrow> assign_value self name option (opt_value option) = self"
  by (simp add: assign_value_def get_option_def dict_set_same split: option.splits)

lemma getitem_assign_value: "getitem (assign_value self name option v) name = Inr v"
  by (simp add: getitem_def assign_value_def map_of_dict_set)

lemma set_option_unknown:
  "get_option self name = Inl e \<Longrightarrow> set_option self name raw = (Inl e, self)"
  by (simp add: set_option_def)

lemma set_option_raises:
  "get_option self name = Inr option \<Longrightarrow> coerce (opt_type option) raw = Inl e
     \<Longrightarrow> set_option self name raw = (Inl e, self)"
  by (simp add: set_option_def)

lemma set_option_no_callback:
  "get_option self name = Inr option \<Longrightarrow> coerce (opt_type option) raw = Inr (v, a)
     \<Longrightarrow> opt_callback option = None
     \<Longrightarrow> set_option self name raw = (Inr (opt_value option), assign_value self name option v)"
  by (simp add: set_option_def)

lemma set_option_callback:
  "get_option self name = Inr option \<Longrightarrow> coerce (opt_type option) raw = Inr (v, a)
     \<Longrightarrow> opt_callback option = Some cb
     \<Longrightarrow> set_option self name raw =
           (Inr (opt_value option), if cb a (opt_value option) then assign_value self name option v else self)"
  by (simp add: set_option_def assign_value_twice assign_value_same)

lemma set_option_cases:
  "snd (set_option self name raw) = self
   \<or> (\<exists>option v. get_option self name = Inr option \<and> snd (set_option self name raw) = assign_value self name option v)"
proof (cases "get_option self name")
  case (Inl e)
  then show ?thesis by (simp add: set_option_unknown)
next
  case (Inr option)
  show ?thesis
  proof (cases "coerce (opt_type option) raw")
    case (Inl e)
    with Inr show ?thesis by (simp add: set_option_raises)
  next
    case coerced: (Inr p)
    obtain v a where p: "p = (v, a)" by (cases p)
    show ?thesis
    proof (cases "opt_callback option")
      case None
      with Inr coerced p show ?thesis by (auto simp: set_option_no_callback)
    next
      case (Some cb)
      with Inr coerced p show ?thesis by (auto simp: set_option_callback)
    qed
  qed
qed

lemma frame_dict_set:
  "map_of xs k = Some option \<Longrightarrow>
   map (\<lambda>(n, o'). (n, frame o')) (dict_set k (option\<lparr>opt_value := v\<rparr>) xs) = map (\<lambda>(n, o'). (n, frame o')) xs"
  by (induction xs) (auto simp: frame_def split: if_splits)

lemma frame_assign_value:
  "get_option self name = Inr option \<Longrightarrow>
   map (\<lambda>(n, o'). (n, frame o')) (options (assign_value self name option v)) = map (\<lambda>(n, o'). (n, frame o')) (options self)"
  by (simp add: assign_value_def get_option_def frame_dict_set split: option.splits)

lemma other_assign_value:
  "k \<noteq> name \<Longrightarrow> map_of (options (assign_value self name option v)) k = map_of (options self) k"
  by (simp add: assign_value_def map_of_dict_set)

lemma dirs_assign_value: "directories (assign_value self name option v) = directories self"
  by (simp add: assign_value_def)

lemma getitem_declared:
  "getitem (self\<lparr>options := dict_set name option (options self)\<rparr>) name = Inr (opt_value option)"
  by (simp add: getitem_def map_of_dict_set)

lemma get_option_declared:
  "get_option (self\<lparr>options := dict_set name option (options self)\<rparr>) name = Inr option"
  by (simp add: get_option_def map_of_dict_set)

lemma missing_order:
  "distinct (map fst xs) \<Longrightarrow> \<forall>(name, option) \<in> set xs. opt_name option = name \<Longrightarrow>
   map opt_name (filter P (map snd xs)) =
     filter (\<lambda>name. \<exists>option. map_of xs name = Some option \<and> P option) (map fst xs)"
proof (induction xs)
  case Nil
  then show ?case by simp
next
  case (Cons p xs)
  obtain k option where p: "p = (k, option)" by (cases p)
  from Cons.prems p have k: "k \<notin> fst ` set xs" and nm: "opt_name option = k"
    and d: "distinct (map fst xs)" and w: "\<forall>(name, option) \<in> set xs. opt_name option = name"
    by auto
  have "filter (\<lambda>name. \<exists>option'. map_of (p # xs) name = Some option' \<and> P option') (map fst xs)
      = filter (\<lambda>name. \<exists>option'. map_of xs name = Some option' \<and> P option') (map fst xs)"
    using k p by (intro filter_cong) auto
  with Cons.IH [OF d w] p nm show ?case by simp
qed

lemma get_option_count_registry:
  "get_option (count_registry cb) ''COUNT'' =
     Inr (Option_init ''COUNT'' ''int'' ''a count'' True VNone (Some cb))"
  by (simp add: model_defs dirs0_def count_registry_def)

subsection \<open>Well-formed registries\<close>

text \<open>
  Every registry built from the empty one by the methods is well formed, and
  \<^verbatim>\<open>set_option\<close> never makes a value absent.
\<close>

lemma distinct_dict_set: "distinct (map fst xs) \<Longrightarrow> distinct (map fst (dict_set k v xs))"
  by (induction xs) (auto simp: keys_dict_set)

lemma names_dict_set:
  "\<forall>(name, option) \<in> set xs. opt_name option = name \<Longrightarrow> opt_name v = k
     \<Longrightarrow> \<forall>(name, option) \<in> set (dict_set k v xs). opt_name option = name"
  by (induction xs) auto

lemma wellformed_declare:
  assumes "wellformed self" and "opt_name option = name"
  shows "wellformed (self\<lparr>options := dict_set name option (options self)\<rparr>)"
proof -
  from assms(1) have d: "distinct (map fst (options self))"
    and a: "\<forall>(name, option) \<in> set (options self). opt_name option = name"
    by (simp_all add: wellformed_def)
  from distinct_dict_set [OF d] names_dict_set [OF a assms(2)] show ?thesis
    by (simp add: wellformed_def)
qed

lemma wellformed_init: "wellformed (Options_init dirs)"
  by (simp add: wellformed_def Options_init_def)

lemma wellformed_add:
  "wellformed self \<Longrightarrow> wellformed (add_string self name help required dflt)"
  "wellformed self \<Longrightarrow> wellformed (add_integer self name help required dflt)"
  "wellformed self \<Longrightarrow> wellformed (add_float self name help required dflt)"
  "wellformed self \<Longrightarrow> wellformed (add_boolean self name help required dflt)"
  "wellformed self \<Longrightarrow> wellformed (add_rfile sep self name help required dflt)"
  by (simp_all add: add_string_def add_integer_def add_float_def add_boolean_def add_rfile_def
        wellformed_declare Option_init_def)

lemma wellformed_name:
  "wellformed self \<Longrightarrow> get_option self name = Inr option \<Longrightarrow> opt_name option = name"
  by (auto simp: wellformed_def get_option_def split: option.splits dest: map_of_SomeD)

lemma wellformed_set_callback:
  "wellformed self \<Longrightarrow> wellformed (snd (set_callback self name callback))"
  by (cases "get_option self name")
     (simp_all add: set_callback_def wellformed_declare wellformed_name)

lemma wellformed_set_option:
  assumes "wellformed self"
  shows "wellformed (snd (set_option self name raw))"
proof -
  from set_option_cases [of self name raw] show ?thesis
  proof
    assume "snd (set_option self name raw) = self"
    with assms show ?thesis by simp
  next
    assume "\<exists>option v. get_option self name = Inr option
      \<and> snd (set_option self name raw) = assign_value self name option v"
    then obtain option v where g: "get_option self name = Inr option"
      and s: "snd (set_option self name raw) = assign_value self name option v" by blast
    from assms g have "opt_name (option\<lparr>opt_value := v\<rparr>) = name"
      by (simp add: wellformed_name)
    with assms show ?thesis unfolding s assign_value_def by (rule wellformed_declare)
  qed
qed

lemma set_option_stores_value:
  "getitem (snd (set_option self name raw)) name = Inr VNone \<Longrightarrow> getitem self name = Inr VNone"
proof -
  assume a: "getitem (snd (set_option self name raw)) name = Inr VNone"
  from set_option_cases [of self name raw] show ?thesis
  proof
    assume "snd (set_option self name raw) = self"
    with a show ?thesis by simp
  next
    assume "\<exists>option v. get_option self name = Inr option
      \<and> snd (set_option self name raw) = assign_value self name option v"
    then obtain option v where g: "get_option self name = Inr option"
      and s: "snd (set_option self name raw) = assign_value self name option v" by blast
    from a s have v: "v = VNone" by (simp add: getitem_assign_value)
    show ?thesis
    proof (cases "coerce (opt_type option) raw")
      case (Inl e)
      with g have "snd (set_option self name raw) = self" by (simp add: set_option_raises)
      with a show ?thesis by simp
    next
      case (Inr p)
      obtain w arg where p: "p = (w, arg)" by (cases p)
      from Inr p have w: "w \<noteq> VNone" by (auto dest: coerce_not_None)
      show ?thesis
      proof (cases "opt_callback option")
        case None
        from set_option_no_callback [OF g Inr [unfolded p] None] a w show ?thesis
          by (simp add: getitem_assign_value)
      next
        case (Some cb)
        from set_option_callback [OF g Inr [unfolded p] Some] a w show ?thesis
          by (simp add: getitem_assign_value split: if_splits)
      qed
    qed
  qed
qed

section \<open>The claims\<close>

subsection \<open>C1: hexadecimal input of an Integer option\<close>

text \<open>
  Claim C1. An Integer option should accept a text that starts with \<^verbatim>\<open>0x\<close> and goes on
  with hexadecimal digits, so that \<^verbatim>\<open>set_option("PORT", "0x1F90")\<close> stores 8080. The code
  does not: \<^verbatim>\<open>string_is_hex\<close> negates the truth value of a filter object, which is
  always true, so it answers false on every text and the hexadecimal branch is never
  taken. On the option \<^verbatim>\<open>PORT\<close> declared with no default the call raises
  \<^verbatim>\<open>TypeError\<close> and the value stays absent.
\<close>

theorem C1_hex_text_raises:
  "set_option port_registry ''PORT'' ''0x1F90'' = (Inl TypeError, port_registry)
   \<and> getitem (snd (set_option port_registry ''PORT'' ''0x1F90'')) ''PORT'' = Inr VNone
   \<and> string_is_hex ''1f90'' = False"
  by (simp add: port_registry_def add_integer_def Options_init_def Option_init_def
        set_option_def get_option_def getitem_def coerce_int_0x [of "''1F90''", simplified]
        string_is_hex_False)

subsection \<open>C2: the arguments of the callback\<close>

text \<open>
  Claim C2. The callback should receive the coerced, typed value as its first argument
  and the previous stored value as its second. On the decimal path of an Integer option
  the code does not: the text \<^verbatim>\<open>42\<close> is coerced to the integer 42, which is what is
  assigned to the option, but line 175 hands the callback the local variable
  \<^verbatim>\<open>value\<close>, which still holds the text. A callback that accepts the integer 42 only
  therefore vetoes, and the value stays absent. The hexadecimal path of the same branch
  rebinds \<^verbatim>\<open>value\<close> to the integer, and the String and ReadableFilePath branches
  pass the stored value.
\<close>

theorem C2_callback_receives_text:
  "coerce ''int'' ''42'' = Inr (VInt 42, VStr ''42'')
   \<and> only_int_42 (VInt 42) VNone
   \<and> set_option (count_registry only_int_42) ''COUNT'' ''42''
       = (Inr VNone, count_registry only_int_42)
   \<and> getitem (snd (set_option (count_registry only_int_42) ''COUNT'' ''42'')) ''COUNT'' = Inr VNone
   \<and> coerce ''bool'' ''true'' = Inr (VBool True, VStr ''true'')"
  by (simp add: model_defs dirs0_def count_registry_def only_int_42_def)

subsection \<open>C3: the veto of the callback\<close>

text \<open>
  Claim C3. On an option with a callback, when the coercion succeeds, \<^verbatim>\<open>set_option\<close>
  returns the value stored before the call; the stored value afterwards is the value
  before the call if the callback answers false, and the coerced value if it answers
  true.
\<close>

theorem C3_veto:
  assumes "get_option self name = Inr option" and "opt_callback option = Some cb"
    and "coerce (opt_type option) raw = Inr (v, a)"
  shows "getitem self name = Inr (opt_value option)
     \<and> fst (set_option self name raw) = Inr (opt_value option)
     \<and> getitem (snd (set_option self name raw)) name =
         Inr (if cb a (opt_value option) then v else opt_value option)"
proof -
  from assms(1) have pre: "getitem self name = Inr (opt_value option)"
    by (auto simp: get_option_def getitem_def split: option.splits)
  have "set_option self name raw =
      (Inr (opt_value option), if cb a (opt_value option) then assign_value self name option v else self)"
    by (rule set_option_callback [OF assms(1) assms(3) assms(2)])
  with pre show ?thesis by (simp add: getitem_assign_value)
qed

text \<open>
  The claim at the Integer option \<^verbatim>\<open>COUNT\<close> whose callback refuses the text \<^verbatim>\<open>0\<close>: the
  call with \<^verbatim>\<open>0\<close> is vetoed, the call with \<^verbatim>\<open>7\<close> stores 7.
\<close>

theorem C3_veto_witness:
  "get_option (count_registry not_zero_text) ''COUNT''
     = Inr (Option_init ''COUNT'' ''int'' ''a count'' True VNone (Some not_zero_text))
   \<and> coerce ''int'' ''0'' = Inr (VInt 0, VStr ''0'')
   \<and> coerce ''int'' ''7'' = Inr (VInt 7, VStr ''7'')
   \<and> fst (set_option (count_registry not_zero_text) ''COUNT'' ''0'') = Inr VNone
   \<and> getitem (snd (set_option (count_registry not_zero_text) ''COUNT'' ''0'')) ''COUNT'' = Inr VNone
   \<and> fst (set_option (count_registry not_zero_text) ''COUNT'' ''7'') = Inr VNone
   \<and> getitem (snd (set_option (count_registry not_zero_text) ''COUNT'' ''7'')) ''COUNT''
       = Inr (VInt 7)"
proof -
  let ?o = "Option_init ''COUNT'' ''int'' ''a count'' True VNone (Some not_zero_text)"
  have g: "get_option (count_registry not_zero_text) ''COUNT'' = Inr ?o"
    by (rule get_option_count_registry)
  have cb: "opt_callback ?o = Some not_zero_text" by (simp add: Option_init_def)
  have c0: "coerce (opt_type ?o) ''0'' = Inr (VInt 0, VStr ''0'')" by (simp add: model_defs)
  have c7: "coerce (opt_type ?o) ''7'' = Inr (VInt 7, VStr ''7'')" by (simp add: model_defs)
  from C3_veto [OF g cb c0] C3_veto [OF g cb c7] g c0 c7 show ?thesis
    by (simp add: Option_init_def not_zero_text_def)
qed

subsection \<open>C4: a failed coercion changes nothing\<close>

text \<open>
  Claim C4. When \<^verbatim>\<open>set_option\<close> raises, whatever the exception, the registry is the one
  before the call, and so is the stored value of the option.
\<close>

theorem C4_error_leaves_value:
  "fst (set_option self name raw) = Inl e \<Longrightarrow>
     snd (set_option self name raw) = self \<and> getitem (snd (set_option self name raw)) name = getitem self name"
  by (auto simp: set_option_def Let_def split: sum.splits option.splits prod.splits if_splits)

text \<open>
  The claim at a Float option and the text \<^verbatim>\<open>1.2.3\<close>, which has two points.
\<close>

theorem C4_error_leaves_value_witness:
  "fst (set_option rate_registry ''RATE'' ''1.2.3'') = Inl TypeError
   \<and> snd (set_option rate_registry ''RATE'' ''1.2.3'') = rate_registry
   \<and> getitem (snd (set_option rate_registry ''RATE'' ''1.2.3'')) ''RATE'' = Inr (VFloat 1)"
proof -
  have e: "fst (set_option rate_registry ''RATE'' ''1.2.3'') = Inl TypeError"
    by (simp add: model_defs dirs0_def rate_registry_def)
  have v: "getitem rate_registry ''RATE'' = Inr (VFloat 1)"
    by (simp add: model_defs dirs0_def rate_registry_def)
  from C4_error_leaves_value [OF e] e v show ?thesis by simp
qed

subsection \<open>C5: the round trip of an Integer option\<close>

text \<open>
  Claim C5 says that \<^verbatim>\<open>set_option(name, str(n))\<close> stores \<open>n\<close> for every integer. The text
  of a negative integer starts with a minus sign, which is no digit: the call raises
  \<^verbatim>\<open>TypeError\<close> and the value stays absent.
\<close>

theorem C5_counterexample:
  "py_str (- 5) = ''-5''
   \<and> set_option port_registry ''PORT'' (py_str (- 5)) = (Inl TypeError, port_registry)
   \<and> getitem (snd (set_option port_registry ''PORT'' (py_str (- 5)))) ''PORT'' = Inr VNone"
proof -
  have s: "py_str (- 5) = ''-5''" by (simp add: py_str_def digits.simps char_of_def bit_0)
  have g: "get_option port_registry ''PORT'' = Inr (Option_init ''PORT'' ''int'' ''the port'' True VNone None)"
    by (simp add: model_defs dirs0_def port_registry_def)
  have "set_option port_registry ''PORT'' ''-5'' = (Inl TypeError, port_registry)"
    by (rule set_option_raises [OF g]) (simp add: Option_init_def coerce_int_negative)
  with s g show ?thesis
    by (simp add: getitem_def get_option_def Option_init_def split: option.splits)
qed

text \<open>
  Claim C5, amended. For every Integer option and every integer \<open>n\<close> that is not negative,
  the text \<^verbatim>\<open>str(n)\<close> is coerced to \<open>n\<close>, \<^verbatim>\<open>set_option\<close> returns the previous value,
  and the value looked up afterwards is \<open>n\<close>, unless the callback of the option vetoes.
  Nothing is said here about hexadecimal texts.
\<close>

theorem C5_decimal_round_trip:
  assumes "get_option self name = Inr option" and "opt_type option = ''int''" and "0 \<le> n"
  shows "coerce ''int'' (py_str n) = Inr (VInt n, VStr (py_str n))
     \<and> fst (set_option self name (py_str n)) = Inr (opt_value option)
     \<and> getitem (snd (set_option self name (py_str n))) name =
         Inr (if vetoes option (VStr (py_str n)) then opt_value option else VInt n)"
proof -
  from assms(3) have s: "py_str n = digits (nat n)" by (simp add: py_str_def)
  from assms(3) have c: "coerce ''int'' (py_str n) = Inr (VInt n, VStr (py_str n))"
    by (simp add: s coerce_int_digits)
  with assms(2) have c': "coerce (opt_type option) (py_str n) = Inr (VInt n, VStr (py_str n))"
    by simp
  from assms(1) have pre: "getitem self name = Inr (opt_value option)"
    by (auto simp: get_option_def getitem_def split: option.splits)
  show ?thesis
  proof (cases "opt_callback option")
    case None
    from set_option_no_callback [OF assms(1) c' None] c show ?thesis
      by (simp add: getitem_assign_value vetoes_def None)
  next
    case (Some cb)
    from set_option_callback [OF assms(1) c' Some] c pre show ?thesis
      by (simp add: getitem_assign_value vetoes_def Some)
  qed
qed

text \<open>
  The amended claim at the option \<^verbatim>\<open>PORT\<close> and the integer 8080.
\<close>

theorem C5_decimal_round_trip_witness:
  "get_option port_registry ''PORT'' = Inr (Option_init ''PORT'' ''int'' ''the port'' True VNone None)
   \<and> (0::int) \<le> 8080
   \<and> py_str 8080 = ''8080''
   \<and> fst (set_option port_registry ''PORT'' ''8080'') = Inr VNone
   \<and> getitem (snd (set_option port_registry ''PORT'' ''8080'')) ''PORT'' = Inr (VInt 8080)"
proof -
  let ?o = "Option_init ''PORT'' ''int'' ''the port'' True VNone None"
  have g: "get_option port_registry ''PORT'' = Inr ?o" by (simp add: model_defs dirs0_def port_registry_def)
  have t: "opt_type ?o = ''int''" by (simp add: Option_init_def)
  have n: "(0::int) \<le> 8080" by simp
  have s: "py_str 8080 = ''8080''" by (simp add: py_str_def digits.simps char_of_def bit_0)
  from C5_decimal_round_trip [OF g t n] g s show ?thesis
    by (simp add: vetoes_def Option_init_def)
qed

subsection \<open>C6: the required options that are missing\<close>

text \<open>
  Claim C6. In a well-formed registry, \<^verbatim>\<open>get_missing_options\<close> returns exactly the names
  of the options that are required and whose value is absent; it lists them in the order
  of the dictionary, each once, so the sequence is determined by the history of
  declarations.
\<close>

theorem C6_missing_options:
  assumes "wellformed self"
  shows "set (get_missing_options self) =
           {name. \<exists>option. get_option self name = Inr option
                    \<and> opt_required option \<and> opt_value option = VNone}
     \<and> get_missing_options self =
           filter (\<lambda>name. \<exists>option. get_option self name = Inr option
                    \<and> opt_required option \<and> opt_value option = VNone) (iter_options self)
     \<and> distinct (get_missing_options self)"
proof -
  let ?P = "\<lambda>option. opt_required option \<and> opt_value option = VNone"
  have eq: "(\<exists>option. get_option self name = Inr option \<and> ?P option)
      = (\<exists>option. map_of (options self) name = Some option \<and> ?P option)" for name
    by (auto simp: get_option_def split: option.splits)
  from assms have d: "distinct (map fst (options self))"
    and w: "\<forall>(name, option) \<in> set (options self). opt_name option = name"
    by (simp_all add: wellformed_def)
  have order: "get_missing_options self =
      filter (\<lambda>name. \<exists>option. get_option self name = Inr option \<and> ?P option) (iter_options self)"
    unfolding get_missing_options_def iter_options_def eq by (rule missing_order [OF d w])
  have "set (get_missing_options self) =
      {name. \<exists>option. get_option self name = Inr option \<and> ?P option}"
    unfolding order
    by (auto simp: iter_options_def get_option_def split: option.splits dest: map_of_SomeD
          intro: rev_image_eqI)
  moreover have "distinct (get_missing_options self)"
    unfolding order using d by (simp add: iter_options_def)
  ultimately show ?thesis using order by simp
qed

text \<open>
  The claim at a registry of three options, where only \<^verbatim>\<open>PORT\<close> is required and absent,
  and after \<^verbatim>\<open>PORT\<close> is set.
\<close>

theorem C6_missing_options_witness:
  "wellformed two_registry
   \<and> get_missing_options two_registry = [''PORT'']
   \<and> get_missing_options (snd (set_option two_registry ''PORT'' ''8080'')) = []"
proof -
  have w: "wellformed two_registry" by (simp add: model_defs dirs0_def two_registry_def wellformed_def)
  have "get_missing_options two_registry = [''PORT'']"
    using C6_missing_options [OF w] by (simp add: model_defs dirs0_def two_registry_def wellformed_def)
  moreover have "get_missing_options (snd (set_option two_registry ''PORT'' ''8080'')) = []"
    by (simp add: model_defs dirs0_def two_registry_def wellformed_def)
  ultimately show ?thesis using w by simp
qed

subsection \<open>C7: the texts of a Boolean option\<close>

text \<open>
  Claim C7. On a Boolean option, a text whose lower-cased form is \<^verbatim>\<open>true\<close>, \<^verbatim>\<open>1\<close> or
  \<^verbatim>\<open>on\<close> is coerced to true, one whose lower-cased form is \<^verbatim>\<open>false\<close>, \<^verbatim>\<open>0\<close> or
  \<^verbatim>\<open>off\<close> is coerced to false, and the value is stored unless the callback vetoes; every
  other text raises \<^verbatim>\<open>TypeError\<close> and changes nothing.
\<close>

theorem C7_boolean:
  assumes "get_option self name = Inr option" and "opt_type option = ''bool''"
  shows "(lower raw \<in> {''true'', ''1'', ''on''} \<longrightarrow>
            coerce ''bool'' raw = Inr (VBool True, VStr raw)
          \<and> fst (set_option self name raw) = Inr (opt_value option)
          \<and> getitem (snd (set_option self name raw)) name =
               Inr (if vetoes option (VStr raw) then opt_value option else VBool True))
     \<and> (lower raw \<in> {''false'', ''0'', ''off''} \<longrightarrow>
            coerce ''bool'' raw = Inr (VBool False, VStr raw)
          \<and> fst (set_option self name raw) = Inr (opt_value option)
          \<and> getitem (snd (set_option self name raw)) name =
               Inr (if vetoes option (VStr raw) then opt_value option else VBool False))
     \<and> (lower raw \<notin> {''true'', ''1'', ''on'', ''false'', ''0'', ''off''} \<longrightarrow>
            set_option self name raw = (Inl TypeError, self))"
proof -
  from assms(1) have pre: "getitem self name = Inr (opt_value option)"
    by (auto simp: get_option_def getitem_def split: option.splits)
  have stored: "fst (set_option self name raw) = Inr (opt_value option)
      \<and> getitem (snd (set_option self name raw)) name =
          Inr (if vetoes option (VStr raw) then opt_value option else v)"
    if c: "coerce ''bool'' raw = Inr (v, VStr raw)" for v
  proof -
    from c assms(2) have c': "coerce (opt_type option) raw = Inr (v, VStr raw)" by simp
    show ?thesis
    proof (cases "opt_callback option")
      case None
      from set_option_no_callback [OF assms(1) c' None] show ?thesis
        by (simp add: getitem_assign_value vetoes_def None)
    next
      case (Some cb)
      from set_option_callback [OF assms(1) c' Some] pre show ?thesis
        by (simp add: getitem_assign_value vetoes_def Some)
    qed
  qed
  have t: "lower raw \<in> {''true'', ''1'', ''on''} \<Longrightarrow>
      coerce ''bool'' raw = Inr (VBool True, VStr raw)"
    by (simp add: coerce_bool)
  have f: "lower raw \<in> {''false'', ''0'', ''off''} \<Longrightarrow>
      coerce ''bool'' raw = Inr (VBool False, VStr raw)"
    by (auto simp: coerce_bool)
  have e: "lower raw \<notin> {''true'', ''1'', ''on'', ''false'', ''0'', ''off''} \<Longrightarrow>
      set_option self name raw = (Inl TypeError, self)"
    by (rule set_option_raises [OF assms(1)]) (simp add: assms(2) coerce_bool)
  from t f e stored show ?thesis by blast
qed

text \<open>
  The claim at the Boolean option \<^verbatim>\<open>VERBOSE\<close> with the texts \<^verbatim>\<open>On\<close> and \<^verbatim>\<open>yes\<close>.
\<close>

theorem C7_boolean_witness:
  "get_option flag_registry ''VERBOSE''
     = Inr (Option_init ''VERBOSE'' ''bool'' ''more output'' False VNone None)
   \<and> lower ''On'' \<in> {''true'', ''1'', ''on''}
   \<and> getitem (snd (set_option flag_registry ''VERBOSE'' ''On'')) ''VERBOSE'' = Inr (VBool True)
   \<and> lower ''yes'' \<notin> {''true'', ''1'', ''on'', ''false'', ''0'', ''off''}
   \<and> set_option flag_registry ''VERBOSE'' ''yes'' = (Inl TypeError, flag_registry)"
proof -
  let ?o = "Option_init ''VERBOSE'' ''bool'' ''more output'' False VNone None"
  have g: "get_option flag_registry ''VERBOSE'' = Inr ?o"
    by (simp add: model_defs dirs0_def flag_registry_def)
  have t: "opt_type ?o = ''bool''" by (simp add: Option_init_def)
  have nv: "\<not> vetoes ?o (VStr ''On'')" by (simp add: vetoes_def Option_init_def)
  have on: "lower ''On'' \<in> {''true'', ''1'', ''on''}"
    by (simp add: lower_def lower_char_def char_of_def bit_0)
  have yes: "lower ''yes'' \<notin> {''true'', ''1'', ''on'', ''false'', ''0'', ''off''}"
    by (simp add: lower_def lower_char_def)
  have a: "getitem (snd (set_option flag_registry ''VERBOSE'' ''On'')) ''VERBOSE''
      = Inr (if vetoes ?o (VStr ''On'') then opt_value ?o else VBool True)"
    by (rule conjunct2 [OF conjunct2 [OF mp [OF conjunct1 [OF C7_boolean [OF g t]] on]]])
  have b: "set_option flag_registry ''VERBOSE'' ''yes'' = (Inl TypeError, flag_registry)"
    by (rule mp [OF conjunct2 [OF conjunct2 [OF C7_boolean [OF g t]]] yes])
  from a nv have a': "getitem (snd (set_option flag_registry ''VERBOSE'' ''On'')) ''VERBOSE''
      = Inr (VBool True)"
    by (simp only: if_False)
  show ?thesis by (intro conjI g on a' yes b)
qed

subsection \<open>C8: the value right after a declaration\<close>

text \<open>
  Claim C8. Right after a declaration the value looked up under the name is the declared
  default. For a ReadableFilePath option with a text as default, the default is the text
  in which every \<^verbatim>\<open>$DATA_PATH \<close> has been replaced by the data path and the separator,
  and then every \<^verbatim>\<open>$USER_DATA \<close> by the user data path and the separator; the stored
  default is that same value, and the lookup does not read the directories again. With
  the data path \<^verbatim>\<open>/etc/app\<close> the default \<^verbatim>\<open>$DATA_PATH config.ini\<close> becomes
  \<^verbatim>\<open>/etc/app/config.ini\<close>.
\<close>

theorem C8_value_after_declaration:
  "getitem (add_string self name help required dflt) name = Inr dflt
   \<and> getitem (add_integer self name help required dflt) name = Inr dflt
   \<and> getitem (add_float self name help required dflt) name = Inr dflt
   \<and> getitem (add_boolean self name help required dflt) name = Inr dflt
   \<and> getitem (add_rfile sep self name help required dflt) name =
       Inr (case dflt of
              VStr d \<Rightarrow>
                VStr (replace (replace d ''$DATA_PATH '' (data_path (directories self) @ sep))
                        ''$USER_DATA '' (user_data (directories self) @ sep))
            | _ \<Rightarrow> dflt)
   \<and> map_sum id opt_default (get_option (add_rfile sep self name help required dflt) name)
       = getitem (add_rfile sep self name help required dflt) name
   \<and> getitem ((add_rfile sep self name help required dflt)\<lparr>directories := dirs\<rparr>) name
       = getitem (add_rfile sep self name help required dflt) name
   \<and> getitem config_registry ''CONFIG'' = Inr (VStr ''/etc/app/config.ini'')"
proof -
  have scenario: "getitem config_registry ''CONFIG'' = Inr (VStr ''/etc/app/config.ini'')"
    by (simp add: config_registry_def dirs0_def add_rfile_def Options_init_def Option_init_def
          rfile_default_def getitem_def replace_def replace_from.simps startswith_def)
  have rfile: "getitem (add_rfile sep self name help required dflt) name =
      Inr (rfile_default sep (directories self) dflt)"
    by (simp add: add_rfile_def getitem_declared Option_init_def)
  have dflt: "map_sum id opt_default (get_option (add_rfile sep self name help required dflt) name)
      = Inr (rfile_default sep (directories self) dflt)"
    by (simp add: add_rfile_def get_option_declared Option_init_def)
  have later: "getitem ((add_rfile sep self name help required dflt)\<lparr>directories := dirs\<rparr>) name
      = getitem (add_rfile sep self name help required dflt) name"
    by (simp add: getitem_def)
  show ?thesis
    by (simp add: scenario rfile dflt later rfile_default_def add_string_def add_integer_def
          add_float_def add_boolean_def getitem_declared Option_init_def)
qed

subsection \<open>C9: names that were never declared\<close>

text \<open>
  Claim C9. On a name that is no key of the registry, \<^verbatim>\<open>set_option\<close>, the lookup of the
  value, \<^verbatim>\<open>get_option\<close> and \<^verbatim>\<open>set_callback\<close> all raise \<^verbatim>\<open>KeyError\<close>, and the
  registry is left as it was.
\<close>

theorem C9_unknown:
  assumes "name \<notin> set (iter_options self)"
  shows "set_option self name raw = (Inl (KeyError name), self)
       \<and> getitem self name = Inl (KeyError name)
       \<and> get_option self name = Inl (KeyError name)
       \<and> set_callback self name cb = (Inl (KeyError name), self)"
proof -
  from assms have "map_of (options self) name = None"
    by (simp add: iter_options_def map_of_eq_None_iff)
  then show ?thesis
    by (simp add: set_option_def getitem_def get_option_def set_callback_def)
qed

text \<open>
  The claim at the name \<^verbatim>\<open>UNDEFINED_NAME\<close> in a registry that declares \<^verbatim>\<open>PORT\<close> only.
\<close>

theorem C9_unknown_witness:
  "''UNDEFINED_NAME'' \<notin> set (iter_options port_registry)
   \<and> set_option port_registry ''UNDEFINED_NAME'' ''x''
       = (Inl (KeyError ''UNDEFINED_NAME''), port_registry)
   \<and> getitem port_registry ''UNDEFINED_NAME'' = Inl (KeyError ''UNDEFINED_NAME'')
   \<and> get_option port_registry ''UNDEFINED_NAME'' = Inl (KeyError ''UNDEFINED_NAME'')
   \<and> set_callback port_registry ''UNDEFINED_NAME'' None
       = (Inl (KeyError ''UNDEFINED_NAME''), port_registry)"
proof -
  have n: "''UNDEFINED_NAME'' \<notin> set (iter_options port_registry)"
    by (simp add: model_defs dirs0_def port_registry_def)
  from C9_unknown [OF n] n show ?thesis by simp
qed

subsection \<open>C10: what a call of set_option can change\<close>

text \<open>
  Claim C10. Whatever its outcome, \<^verbatim>\<open>set_option\<close> keeps the keys of the registry and
  their order, every field of every option other than the value, and the directories; an
  option under another name is unchanged as a whole.
\<close>

theorem C10_frame:
  "map (\<lambda>(n, option). (n, frame option)) (options (snd (set_option self name raw)))
     = map (\<lambda>(n, option). (n, frame option)) (options self)
   \<and> directories (snd (set_option self name raw)) = directories self
   \<and> (\<forall>k. k \<noteq> name \<longrightarrow> map_of (options (snd (set_option self name raw))) k = map_of (options self) k)"
  using set_option_cases [of self name raw]
  by (auto simp: frame_assign_value other_assign_value dirs_assign_value)

text \<open>
  The claim at a registry of three options: setting \<^verbatim>\<open>PORT\<close> leaves \<^verbatim>\<open>HOST\<close> as it
  was.
\<close>

theorem C10_frame_witness:
  "''HOST'' \<noteq> ''PORT''
   \<and> map_of (options (snd (set_option two_registry ''PORT'' ''8080''))) ''HOST''
       = map_of (options two_registry) ''HOST''"
proof -
  have ne: "''HOST'' \<noteq> ''PORT''" by simp
  have every: "\<forall>k. k \<noteq> ''PORT'' \<longrightarrow>
      map_of (options (snd (set_option two_registry ''PORT'' ''8080''))) k
        = map_of (options two_registry) k"
    by (rule conjunct2 [OF conjunct2 [OF C10_frame]])
  have "map_of (options (snd (set_option two_registry ''PORT'' ''8080''))) ''HOST''
      = map_of (options two_registry) ''HOST''"
    by (rule mp [OF spec [OF every] ne])
  with ne show ?thesis by (rule conjI)
qed

end
